theory Spec2Isabelle
  imports Main "HOL-Library.AList"
begin

section \<open>Request data\<close>

text \<open>
  The service is an Express application over two Mongoose models. A request body is
  the object that \<^verbatim>\<open>express.json()\<close> parsed; it is modelled as an association list
  from keys to JSON scalars. Nested objects and arrays as field values are outside the
  model (Mongoose reads them as sub-documents or as query and update operators), so
  every statement below is about requests whose bodies are flat objects of scalars.
  A number \<open>JNum n\<close> is the integer-valued double \<open>n\<close>; fractions are not
  representable. The program never computes with numbers.
\<close>

datatype jsval = JNull | JBool bool | JNum int | JStr string

type_synonym body = "(string \<times> jsval) list"

type_synonym objectId = "nat list"

datatype val = VNull | VStr string | VNum int | VDate int

text \<open>
  A stored document is its \<^verbatim>\<open>_id\<close> with the values of its set paths; a collection
  is an association list of documents in insertion order, \<^verbatim>\<open>_id\<close> being its key.
  The version key \<^verbatim>\<open>__v\<close> is not modelled.
\<close>

type_synonym fields = "(string \<times> val) list"

type_synonym document = "objectId \<times> fields"

type_synonym collection = "document list"

datatype failure =
  ValidationError | CastError | DuplicateKey | ImmutableField | InvalidUpdate | HelperRaised

text \<open>
  The JavaScript runtime, the configuration and the per-request inputs of a handler.
  \<open>toNumber\<close> is \<^verbatim>\<open>Number(s)\<close> on a string (\<open>None\<close> for \<^verbatim>\<open>NaN\<close>) and
  \<open>parseDate\<close> is \<^verbatim>\<open>new Date(s)\<close> on a string (\<open>None\<close> for an invalid date,
  otherwise milliseconds since the epoch): both are language built-ins and stay
  parameters, and so is \<open>shortestDigits\<close>: for a number beyond the safe integers,
  the digits of the shortest decimal that reads back as the same double, with the
  number of digits its integer part has. \<open>now\<close> is the value of \<^verbatim>\<open>Date.now()\<close>
  that a route reads, \<open>defaultClock p\<close> the value of \<^verbatim>\<open>Date.now()\<close> when the
  default of the schema path \<open>p\<close> is evaluated (every default reads the clock on
  its own), and \<open>freshId\<close> the ObjectId generated for a new document.
  \<open>secret\<close> is \<^verbatim>\<open>process.env.JWT_SECRET\<close> of the configured service.
  \<open>hashPassword\<close> and \<open>comparePassword\<close> belong to \<^verbatim>\<open>models/User\<close>, which the
  routes require and whose file is not among the sources; they stay parameters: the
  salted one-way function applied to a password before it is stored (with the salt it
  draws), and the method that compares a supplied password with the stored hash of a
  user (\<open>Inl\<close> when it raises).
\<close>

record env =
  toNumber :: "string \<Rightarrow> int option"
  parseDate :: "string \<Rightarrow> int option"
  shortestDigits :: "int \<Rightarrow> nat list \<times> nat"
  now :: int
  defaultClock :: "string \<Rightarrow> int"
  freshId :: objectId
  secret :: string
  hashPassword :: "string \<Rightarrow> string"
  comparePassword :: "document \<Rightarrow> jsval option \<Rightarrow> failure + bool"

section \<open>ObjectIds\<close>

text \<open>
  \<^verbatim>\<open>findById\<close>, \<^verbatim>\<open>findByIdAndUpdate\<close> and \<^verbatim>\<open>findByIdAndDelete\<close> cast the id
  of the URL to an ObjectId of 12 bytes: a string of 24 hexadecimal digits is decoded,
  and every other string raises a CastError.
\<close>

definition hexDigit :: "char \<Rightarrow> nat option" where
  "hexDigit c =
     (let n = (of_char c :: nat) in
      if 48 \<le> n \<and> n \<le> 57 then Some (n - 48)
      else if 97 \<le> n \<and> n \<le> 102 then Some (n - 87)
      else if 65 \<le> n \<and> n \<le> 70 then Some (n - 55)
      else None)"

fun hexBytes :: "string \<Rightarrow> nat list option" where
  "hexBytes [] = Some []"
| "hexBytes [c] = None"
| "hexBytes (a # b # cs) =
     (case hexDigit a of
        None \<Rightarrow> None
      | Some x \<Rightarrow>
          (case hexDigit b of
             None \<Rightarrow> None
           | Some y \<Rightarrow>
               (case hexBytes cs of
                  None \<Rightarrow> None
                | Some r \<Rightarrow> Some ((16 * x + y) # r))))"

definition castObjectId :: "string \<Rightarrow> objectId option" where
  "castObjectId s =
     (if length s = 24 then hexBytes s else None)"

section \<open>Schema types and casting\<close>

datatype schemaType = SString | SNumber | SDate

datatype default = NoDefault | DefaultNumber int | DefaultDateNow

record pathDef =
  pathType :: schemaType
  isRequired :: bool
  enumValues :: "string list option"
  defaultValue :: default

type_synonym schema = "(string \<times> pathDef) list"

text \<open>
  \<^verbatim>\<open>Number.prototype.toString\<close> on an integer-valued double. A safe integer (below
  2^53 in absolute value) prints as its decimal digits. Beyond, JavaScript prints the
  shortest digits that identify the double: followed by zeros up to the length of the
  integer part when that is at most 21, and in exponent notation otherwise.
\<close>

definition digitChars :: string where
  "digitChars = ''0123456789''"

fun digitsOf :: "nat \<Rightarrow> string" where
  "digitsOf n =
     (if n < 10 then [digitChars ! n]
      else digitsOf (n div 10) @ [digitChars ! (n mod 10)])"

declare digitsOf.simps [simp del]

definition digitChar :: "nat \<Rightarrow> char" where
  "digitChar d = digitChars ! (d mod 10)"

definition renderDigits :: "nat list \<times> nat \<Rightarrow> string" where
  "renderDigits dn =
     (if snd dn \<le> 21
      then map digitChar (fst dn) @ replicate (snd dn - length (fst dn)) CHR ''0''
      else
        (case fst dn of
           [] \<Rightarrow> []
         | d # rest \<Rightarrow>
             digitChar d # (if rest = [] then [] else CHR ''.'' # map digitChar rest))
        @ ''e+'' @ digitsOf (snd dn - 1))"

definition magnitudeToString :: "env \<Rightarrow> int \<Rightarrow> string" where
  "magnitudeToString e m =
     (if m \<le> 9007199254740991 then digitsOf (nat m) else renderDigits (shortestDigits e m))"

definition numberToString :: "env \<Rightarrow> int \<Rightarrow> string" where
  "numberToString e n =
     (if n < 0 then CHR ''-'' # magnitudeToString e (- n) else magnitudeToString e n)"

text \<open>
  A JavaScript Date holds at most 8.64e15 milliseconds on either side of the epoch;
  \<^verbatim>\<open>new Date(n)\<close> beyond that is an invalid date, which the cast rejects.
\<close>

definition dateOfNumber :: "int \<Rightarrow> val option" where
  "dateOfNumber n =
     (if - 8640000000000000 \<le> n \<and> n \<le> 8640000000000000 then Some (VDate n) else None)"

text \<open>
  Mongoose's casts of a supplied value to the type of its schema path;
  \<open>None\<close> is a CastError.
\<close>

definition castString :: "env \<Rightarrow> jsval \<Rightarrow> val option" where
  "castString e v =
     (case v of
        JNull \<Rightarrow> Some VNull
      | JStr s \<Rightarrow> Some (VStr s)
      | JNum n \<Rightarrow> Some (VStr (numberToString e n))
      | JBool b \<Rightarrow> Some (VStr (if b then ''true'' else ''false'')))"

definition castNumber :: "env \<Rightarrow> jsval \<Rightarrow> val option" where
  "castNumber e v =
     (case v of
        JNull \<Rightarrow> Some VNull
      | JStr s \<Rightarrow> (if s = [] then Some VNull else map_option VNum (toNumber e s))
      | JBool b \<Rightarrow> Some (VNum (if b then 1 else 0))
      | JNum n \<Rightarrow> Some (VNum n))"

definition castDate :: "env \<Rightarrow> jsval \<Rightarrow> val option" where
  "castDate e v =
     (case v of
        JNull \<Rightarrow> Some VNull
      | JBool b \<Rightarrow> None
      | JNum n \<Rightarrow> dateOfNumber n
      | JStr s \<Rightarrow>
          (if s = [] then Some VNull
           else
             (case toNumber e s of
                Some n \<Rightarrow>
                  (if 275761 \<le> n \<or> n < - 271820 then dateOfNumber n
                   else map_option VDate (parseDate e s))
              | None \<Rightarrow> map_option VDate (parseDate e s))))"

fun castValue :: "env \<Rightarrow> schemaType \<Rightarrow> jsval \<Rightarrow> val option" where
  "castValue e SString v = castString e v"
| "castValue e SNumber v = castNumber e v"
| "castValue e SDate v = castDate e v"

section \<open>Documents, schemas and validation\<close>

datatype slot = Unset | CastFailed | Holds val

text \<open>
  \<^verbatim>\<open>new Model(obj)\<close>: a schema path takes the cast of the supplied value when the
  object has the key, and its default otherwise; a \<^verbatim>\<open>Date.now\<close> default reads the
  clock when it is evaluated. Keys that are not schema paths are dropped (strict mode).
\<close>

definition initialSlot :: "env \<Rightarrow> body \<Rightarrow> string \<Rightarrow> pathDef \<Rightarrow> slot" where
  "initialSlot e b p d =
     (case map_of b p of
        Some v \<Rightarrow>
          (case castValue e (pathType d) v of None \<Rightarrow> CastFailed | Some x \<Rightarrow> Holds x)
      | None \<Rightarrow>
          (case defaultValue d of
             NoDefault \<Rightarrow> Unset
           | DefaultNumber n \<Rightarrow> Holds (VNum n)
           | DefaultDateNow \<Rightarrow>
               (case castDate e (JNum (defaultClock e p)) of
                  None \<Rightarrow> CastFailed
                | Some x \<Rightarrow> Holds x)))"

text \<open>
  The validators of a path. \<^verbatim>\<open>required\<close> fails on null, on an unset path and on the
  empty string; \<^verbatim>\<open>enum\<close> is checked on a string value only.
\<close>

definition requiredOk :: "val \<Rightarrow> bool" where
  "requiredOk v = (v \<noteq> VNull \<and> v \<noteq> VStr [])"

definition enumOk :: "pathDef \<Rightarrow> val \<Rightarrow> bool" where
  "enumOk d v =
     (case enumValues d of
        None \<Rightarrow> True
      | Some es \<Rightarrow> (case v of VStr s \<Rightarrow> s \<in> set es | _ \<Rightarrow> True))"

definition valueValid :: "pathDef \<Rightarrow> val \<Rightarrow> bool" where
  "valueValid d v = ((if isRequired d then requiredOk v else True) \<and> enumOk d v)"

definition slotValid :: "pathDef \<Rightarrow> slot \<Rightarrow> bool" where
  "slotValid d sl =
     (case sl of
        CastFailed \<Rightarrow> False
      | Unset \<Rightarrow> \<not> isRequired d
      | Holds v \<Rightarrow> valueValid d v)"

definition scalarText :: "env \<Rightarrow> jsval \<Rightarrow> string option" where
  "scalarText e v =
     (case v of
        JNull \<Rightarrow> None
      | JStr s \<Rightarrow> Some s
      | JNum n \<Rightarrow> Some (numberToString e n)
      | JBool b \<Rightarrow> Some (if b then ''true'' else ''false''))"

text \<open>
  The \<^verbatim>\<open>_id\<close> of a new document: the one the object supplies, cast to an ObjectId,
  and a generated one when the object has no \<^verbatim>\<open>_id\<close> key or a null one. A supplied
  value that is no ObjectId fails the validation of \<^verbatim>\<open>save()\<close>.
\<close>

definition newId :: "env \<Rightarrow> body \<Rightarrow> failure + objectId" where
  "newId e b =
     (case map_of b ''_id'' of
        None \<Rightarrow> Inr (freshId e)
      | Some v \<Rightarrow>
          (case scalarText e v of
             None \<Rightarrow> Inr (freshId e)
           | Some s \<Rightarrow>
               (case castObjectId s of None \<Rightarrow> Inl ValidationError | Some i \<Rightarrow> Inr i)))"

definition heldFields :: "env \<Rightarrow> schema \<Rightarrow> body \<Rightarrow> fields" where
  "heldFields e sch b =
     List.map_filter
       (\<lambda>pd. case initialSlot e b (fst pd) (snd pd) of
                Holds v \<Rightarrow> Some (fst pd, v)
              | _ \<Rightarrow> None)
       sch"

text \<open>\<^verbatim>\<open>new Model(obj)\<close> followed by the validation that \<^verbatim>\<open>save()\<close> runs first.\<close>

definition newDocument :: "env \<Rightarrow> schema \<Rightarrow> body \<Rightarrow> failure + document" where
  "newDocument e sch b =
     (if \<not> list_all (\<lambda>pd. slotValid (snd pd) (initialSlot e b (fst pd) (snd pd))) sch
      then Inl ValidationError
      else
        (case newId e b of
           Inl f \<Rightarrow> Inl f
         | Inr i \<Rightarrow> Inr (i, heldFields e sch b)))"

text \<open>The insert of \<^verbatim>\<open>save()\<close>: the store refuses a second document with the same \<^verbatim>\<open>_id\<close>.\<close>

definition insertDocument :: "document \<Rightarrow> collection \<Rightarrow> failure + collection" where
  "insertDocument d c =
     (case map_of c (fst d) of
        Some old \<Rightarrow> Inl DuplicateKey
      | None \<Rightarrow> Inr (c @ [d]))"

definition saveNew :: "env \<Rightarrow> schema \<Rightarrow> body \<Rightarrow> collection \<Rightarrow> failure + document \<times> collection" where
  "saveNew e sch b c =
     (case newDocument e sch b of
        Inl f \<Rightarrow> Inl f
      | Inr d \<Rightarrow>
          (case insertDocument d c of
             Inl f \<Rightarrow> Inl f
           | Inr c' \<Rightarrow> Inr (d, c')))"

text \<open>
  \<^verbatim>\<open>Model.findById(id)\<close> and \<^verbatim>\<open>Model.findByIdAndDelete(id)\<close>: the id is cast
  first, and an id that is no ObjectId raises.
\<close>

definition findById :: "string \<Rightarrow> collection \<Rightarrow> failure + document option" where
  "findById ident c =
     (case castObjectId ident of
        None \<Rightarrow> Inl CastError
      | Some i \<Rightarrow> Inr (map_option (Pair i) (map_of c i)))"

definition findByIdAndDelete ::
  "string \<Rightarrow> collection \<Rightarrow> failure + document option \<times> collection" where
  "findByIdAndDelete ident c =
     (case castObjectId ident of
        None \<Rightarrow> Inl CastError
      | Some i \<Rightarrow>
          (case map_of c i of
             None \<Rightarrow> Inr (None, c)
           | Some fs \<Rightarrow> Inr (Some (i, fs), AList.delete i c)))"

text \<open>
  \<^verbatim>\<open>Model.findByIdAndUpdate(id, update, { new: true, runValidators: true })\<close>.
  The top-level keys of the update become one \<^verbatim>\<open>$set\<close>: each key that is a schema
  path is cast and, because of \<^verbatim>\<open>runValidators\<close>, validated; only the paths present
  in the update are validated, and every other key is dropped (strict mode), also one
  that starts with \<^verbatim>\<open>$\<close> without being an update operator. The operand of an update
  operator must be an object: with a scalar operand the update raises, except that a
  \<^verbatim>\<open>$set\<close> whose operand is null, false, 0 or the empty string is passed over.
  A supplied \<^verbatim>\<open>_id\<close> is cast as well, and the store refuses to change the \<^verbatim>\<open>_id\<close> of
  the document it matched. The id of the query is cast first; casting and validation
  of the update precede the store's lookup.
\<close>

definition updateOperators :: "string list" where
  "updateOperators =
     [''$currentDate'', ''$inc'', ''$min'', ''$max'', ''$mul'', ''$rename'', ''$set'',
      ''$setOnInsert'', ''$unset'', ''$addToSet'', ''$pop'', ''$pull'', ''$push'', ''$pullAll'',
      ''$bit'']"

definition isOperatorKey :: "string \<Rightarrow> bool" where
  "isOperatorKey k = (k \<in> set updateOperators)"

definition falsy :: "jsval \<Rightarrow> bool" where
  "falsy v = (case v of JNull \<Rightarrow> True | JBool t \<Rightarrow> \<not> t | JNum n \<Rightarrow> n = 0 | JStr s \<Rightarrow> s = [])"

definition rejectedOperator :: "body \<Rightarrow> string \<Rightarrow> bool" where
  "rejectedOperator u k =
     (isOperatorKey k \<and>
      (if k = ''$set'' then (case map_of u k of None \<Rightarrow> True | Some v \<Rightarrow> \<not> falsy v) else True))"

definition updateSlots :: "env \<Rightarrow> schema \<Rightarrow> body \<Rightarrow> (pathDef \<times> string \<times> val option) list" where
  "updateSlots e sch u =
     List.map_filter
       (\<lambda>pd. case map_of u (fst pd) of
                None \<Rightarrow> None
              | Some v \<Rightarrow> Some (snd pd, fst pd, castValue e (pathType (snd pd)) v))
       sch"

definition castUpdate :: "env \<Rightarrow> schema \<Rightarrow> body \<Rightarrow> failure + fields" where
  "castUpdate e sch u =
     (if list_ex (\<lambda>kv. rejectedOperator u (fst kv)) u then Inl InvalidUpdate
      else if list_ex (\<lambda>t. snd (snd t) = None) (updateSlots e sch u) then Inl CastError
      else if list_ex (\<lambda>t. case snd (snd t) of None \<Rightarrow> False | Some v \<Rightarrow> \<not> valueValid (fst t) v)
                (updateSlots e sch u)
      then Inl ValidationError
      else Inr (List.map_filter
                  (\<lambda>t. case snd (snd t) of None \<Rightarrow> None | Some v \<Rightarrow> Some (fst (snd t), v))
                  (updateSlots e sch u)))"

text \<open>
  What the update asks of \<^verbatim>\<open>_id\<close>: nothing, null, or an ObjectId; \<open>Inl\<close> when the
  supplied value is no ObjectId.
\<close>

definition updateId :: "env \<Rightarrow> body \<Rightarrow> failure + objectId option option" where
  "updateId e u =
     (case map_of u ''_id'' of
        None \<Rightarrow> Inr None
      | Some v \<Rightarrow>
          (case scalarText e v of
             None \<Rightarrow> Inr (Some None)
           | Some s \<Rightarrow>
               (case castObjectId s of None \<Rightarrow> Inl CastError | Some i \<Rightarrow> Inr (Some (Some i)))))"

definition keepsId :: "objectId \<Rightarrow> objectId option option \<Rightarrow> bool" where
  "keepsId i r = (case r of None \<Rightarrow> True | Some None \<Rightarrow> False | Some (Some j) \<Rightarrow> j = i)"

definition findByIdAndUpdate ::
  "env \<Rightarrow> schema \<Rightarrow> string \<Rightarrow> body \<Rightarrow> collection \<Rightarrow> failure + document option \<times> collection"
  where
  "findByIdAndUpdate e sch ident u c =
     (case castObjectId ident of
        None \<Rightarrow> Inl CastError
      | Some i \<Rightarrow>
          (case castUpdate e sch u of
             Inl f \<Rightarrow> Inl f
           | Inr sets \<Rightarrow>
               (case updateId e u of
                  Inl f \<Rightarrow> Inl f
                | Inr r \<Rightarrow>
                    (case map_of c i of
                       None \<Rightarrow> Inr (None, c)
                     | Some fs \<Rightarrow>
                         (if \<not> keepsId i r then Inl ImmutableField
                          else Inr (Some (i, AList.merge fs sets),
                                    AList.update i (AList.merge fs sets) c))))))"

section \<open>The Product model\<close>

definition path :: "schemaType \<Rightarrow> bool \<Rightarrow> string list option \<Rightarrow> default \<Rightarrow> pathDef" where
  "path t r en d = \<lparr>pathType = t, isRequired = r, enumValues = en, defaultValue = d\<rparr>"

definition inventoryStatuses :: "string list" where
  "inventoryStatuses = [''INSTOCK'', ''LOWSTOCK'', ''OUTOFSTOCK'']"

definition productSchema :: schema where
  "productSchema =
     [(''code'', path SString True None NoDefault),
      (''name'', path SString True None NoDefault),
      (''description'', path SString False None NoDefault),
      (''image'', path SString False None NoDefault),
      (''category'', path SString False None NoDefault),
      (''price'', path SNumber True None NoDefault),
      (''quantity'', path SNumber True None NoDefault),
      (''internalReference'', path SString False None NoDefault),
      (''shellId'', path SNumber False None NoDefault),
      (''inventoryStatus'', path SString True (Some inventoryStatuses) NoDefault),
      (''rating'', path SNumber False None (DefaultNumber 0)),
      (''createdAt'', path SDate False None DefaultDateNow),
      (''updatedAt'', path SDate False None DefaultDateNow)]"

section \<open>The User model\<close>

text \<open>
  Modelled from the spec: \<^verbatim>\<open>models/User\<close> is required by the routes but its file is
  not among the sources. The spec gives a user the required strings \<open>username\<close>,
  \<open>firstname\<close>, \<open>email\<close> and \<open>password\<close>, makes \<open>email\<close> the unique login
  identifier, and has the password hashed before it is persisted.
\<close>

definition userSchema :: schema where
  "userSchema =
     [(''username'', path SString True None NoDefault),
      (''firstname'', path SString True None NoDefault),
      (''email'', path SString True None NoDefault),
      (''password'', path SString True None NoDefault)]"

text \<open>
  Modelled from the spec: the hook of \<^verbatim>\<open>models/User\<close> that replaces the password
  of a document by its hash before the document is stored.
\<close>

definition hashStored :: "env \<Rightarrow> fields \<Rightarrow> fields" where
  "hashStored e fs =
     (case map_of fs ''password'' of
        Some (VStr p) \<Rightarrow> AList.update ''password'' (VStr (hashPassword e p)) fs
      | _ \<Rightarrow> fs)"

text \<open>
  Modelled from the spec: \<^verbatim>\<open>user.save()\<close> validates the required fields, hashes
  the password, and the store refuses a second user with the same email.
\<close>

definition emailTaken :: "fields \<Rightarrow> collection \<Rightarrow> bool" where
  "emailTaken fs c = list_ex (\<lambda>u. map_of (snd u) ''email'' = map_of fs ''email'') c"

definition saveUser :: "env \<Rightarrow> body \<Rightarrow> collection \<Rightarrow> failure + document \<times> collection" where
  "saveUser e b c =
     (case newDocument e userSchema b of
        Inl f \<Rightarrow> Inl f
      | Inr d \<Rightarrow>
          (if emailTaken (snd d) c then Inl DuplicateKey
           else
             (case insertDocument (fst d, hashStored e (snd d)) c of
                Inl f \<Rightarrow> Inl f
              | Inr c' \<Rightarrow> Inr ((fst d, hashStored e (snd d)), c'))))"

text \<open>
  Modelled from the spec: \<^verbatim>\<open>User.findOne({ email })\<close> returns the first user whose
  email is the supplied value cast to a string; a request without an email asks for a
  user whose email is null or unset.
\<close>

definition emailMatches :: "env \<Rightarrow> jsval option \<Rightarrow> document \<Rightarrow> bool" where
  "emailMatches e q u =
     (case q of
        None \<Rightarrow> map_of (snd u) ''email'' = None \<or> map_of (snd u) ''email'' = Some VNull
      | Some v \<Rightarrow>
          (case castString e v of
             Some VNull \<Rightarrow>
               map_of (snd u) ''email'' = None \<or> map_of (snd u) ''email'' = Some VNull
           | Some x \<Rightarrow> map_of (snd u) ''email'' = Some x
           | None \<Rightarrow> False))"

definition findOneByEmail :: "env \<Rightarrow> jsval option \<Rightarrow> collection \<Rightarrow> document option" where
  "findOneByEmail e q c = find (emailMatches e q) c"

text \<open>
  Modelled from the spec: how a saved user is written into an answer
  (\<^verbatim>\<open>toJSON\<close> of \<^verbatim>\<open>models/User\<close>, whose file is not among the sources). The spec has
  the registration return the created record, including its store-assigned id, and
  names no field that is left out: the document is written as it is stored.
\<close>

definition userJSON :: "document \<Rightarrow> document" where
  "userJSON d = d"

section \<open>Tokens\<close>

text \<open>
  A signed token is modelled symbolically: its payload, the two registered claims
  \<^verbatim>\<open>iat\<close> and \<^verbatim>\<open>exp\<close> in seconds, and the key it was signed with. A token that
  was altered after signing, or signed by someone else, is one whose key is not the
  service's secret.
\<close>

record jwt =
  tokenId :: objectId
  tokenEmail :: "val option"
  issuedAt :: int
  expiresAt :: int
  signedWith :: string

text \<open>\<^verbatim>\<open>generateToken\<close>: \<^verbatim>\<open>jwt.sign({ id, email }, JWT_SECRET, { expiresIn: '1h' })\<close>.\<close>

definition generateToken :: "env \<Rightarrow> document \<Rightarrow> jwt" where
  "generateToken e user =
     \<lparr>tokenId = fst user,
      tokenEmail = map_of (snd user) ''email'',
      issuedAt = now e div 1000,
      expiresAt = now e div 1000 + 3600,
      signedWith = secret e\<rparr>"

text \<open>
  What a request presents: a bearer credential is a token or some other string, and an
  authorization header holds a bearer credential or something else.
\<close>

datatype credential = NotAToken string | Signed jwt

datatype authHeader = Bearer credential | OtherHeader string

text \<open>
  Modelled from the spec: \<^verbatim>\<open>middleware/authMiddleware\<close> is required by
  \<^verbatim>\<open>app.js\<close> but its file is not among the sources. The spec has it extract a bearer
  token from the authorization header, reject when the header is absent or malformed,
  verify signature and expiry against the signing key, reject when either fails, and
  otherwise attach the decoded identity and let the request proceed.
\<close>

definition authenticate :: "env \<Rightarrow> authHeader option \<Rightarrow> (objectId \<times> val option) option" where
  "authenticate e h =
     (case h of
        None \<Rightarrow> None
      | Some (OtherHeader s) \<Rightarrow> None
      | Some (Bearer (NotAToken s)) \<Rightarrow> None
      | Some (Bearer (Signed t)) \<Rightarrow>
          (if signedWith t = secret e \<and> now e div 1000 < expiresAt t
           then Some (tokenId t, tokenEmail t)
           else None))"

section \<open>Responses and routes\<close>

text \<open>
  The JSON bodies of the answers. \<open>ErrorMessage\<close> is \<^verbatim>\<open>{ error: '...' }\<close> with a
  text of the route, \<open>Thrown\<close> is \<^verbatim>\<open>{ error: err.message }\<close> for the exception
  caught, \<open>Account\<close> is \<^verbatim>\<open>{ message, user }\<close>.
\<close>

datatype payload =
  ErrorMessage string
  | Thrown failure
  | Doc document
  | Docs "document list"
  | Message string
  | Token jwt
  | Account string document
  | Unauthorized
  | NoRoute
  | ApiDocs

record response =
  status :: nat
  payload :: payload

record state =
  products :: collection
  users :: collection

subsection \<open>routes/authRoutes\<close>

definition pick :: "string list \<Rightarrow> body \<Rightarrow> body" where
  "pick ks b = List.map_filter (\<lambda>k. map_option (Pair k) (map_of b k)) ks"

text \<open>
  \<^verbatim>\<open>router.post('/account')\<close>: the four fields are taken out of the body, a user is
  built from them and saved; every exception is answered with 400.
\<close>

definition createAccount :: "env \<Rightarrow> body \<Rightarrow> state \<Rightarrow> response \<times> state" where
  "createAccount e b st =
     (case saveUser e (pick [''username'', ''firstname'', ''email'', ''password''] b) (users st) of
        Inl f \<Rightarrow> (\<lparr>status = 400, payload = Thrown f\<rparr>, st)
      | Inr (d, c) \<Rightarrow>
          (\<lparr>status = 201, payload = Account ''Account created successfully'' (userJSON d)\<rparr>,
           st\<lparr>users := c\<rparr>))"

text \<open>\<^verbatim>\<open>router.post('/token')\<close>: an exception is answered with 500.\<close>

definition issueToken :: "env \<Rightarrow> body \<Rightarrow> state \<Rightarrow> response \<times> state" where
  "issueToken e b st =
     (case findOneByEmail e (map_of b ''email'') (users st) of
        None \<Rightarrow> (\<lparr>status = 404, payload = ErrorMessage ''User not found''\<rparr>, st)
      | Some user \<Rightarrow>
          (case comparePassword e user (map_of b ''password'') of
             Inl f \<Rightarrow> (\<lparr>status = 500, payload = Thrown f\<rparr>, st)
           | Inr isMatch \<Rightarrow>
               (if \<not> isMatch
                then (\<lparr>status = 401, payload = ErrorMessage ''Invalid credentials''\<rparr>, st)
                else (\<lparr>status = 200, payload = Token (generateToken e user)\<rparr>, st))))"

subsection \<open>routes/productRoutes\<close>

text \<open>\<^verbatim>\<open>router.post('/')\<close>: every exception is answered with 400.\<close>

definition createProduct :: "env \<Rightarrow> body \<Rightarrow> state \<Rightarrow> response \<times> state" where
  "createProduct e b st =
     (case saveNew e productSchema b (products st) of
        Inl f \<Rightarrow> (\<lparr>status = 400, payload = Thrown f\<rparr>, st)
      | Inr (d, c) \<Rightarrow> (\<lparr>status = 201, payload = Doc d\<rparr>, st\<lparr>products := c\<rparr>))"

text \<open>\<^verbatim>\<open>router.get('/')\<close>\<close>

definition listProducts :: "state \<Rightarrow> response \<times> state" where
  "listProducts st = (\<lparr>status = 200, payload = Docs (products st)\<rparr>, st)"

text \<open>\<^verbatim>\<open>router.get('/:id')\<close>: an exception is answered with 500.\<close>

definition getProduct :: "string \<Rightarrow> state \<Rightarrow> response \<times> state" where
  "getProduct ident st =
     (case findById ident (products st) of
        Inl f \<Rightarrow> (\<lparr>status = 500, payload = Thrown f\<rparr>, st)
      | Inr None \<Rightarrow> (\<lparr>status = 404, payload = ErrorMessage ''Product not found''\<rparr>, st)
      | Inr (Some d) \<Rightarrow> (\<lparr>status = 200, payload = Doc d\<rparr>, st))"

text \<open>
  \<^verbatim>\<open>router.put('/:id')\<close>: the update is the body with \<^verbatim>\<open>updatedAt\<close> overwritten by
  \<^verbatim>\<open>Date.now()\<close>; an exception is answered with 400.
\<close>

definition updateProduct :: "env \<Rightarrow> string \<Rightarrow> body \<Rightarrow> state \<Rightarrow> response \<times> state" where
  "updateProduct e ident b st =
     (case findByIdAndUpdate e productSchema ident
             (AList.update ''updatedAt'' (JNum (now e)) b) (products st) of
        Inl f \<Rightarrow> (\<lparr>status = 400, payload = Thrown f\<rparr>, st)
      | Inr (None, c) \<Rightarrow> (\<lparr>status = 404, payload = ErrorMessage ''Product not found''\<rparr>, st)
      | Inr (Some d, c) \<Rightarrow> (\<lparr>status = 200, payload = Doc d\<rparr>, st\<lparr>products := c\<rparr>))"

text \<open>\<^verbatim>\<open>router.delete('/:id')\<close>: an exception is answered with 500.\<close>

definition deleteProduct :: "string \<Rightarrow> state \<Rightarrow> response \<times> state" where
  "deleteProduct ident st =
     (case findByIdAndDelete ident (products st) of
        Inl f \<Rightarrow> (\<lparr>status = 500, payload = Thrown f\<rparr>, st)
      | Inr (None, c) \<Rightarrow> (\<lparr>status = 404, payload = ErrorMessage ''Product not found''\<rparr>, st)
      | Inr (Some d, c) \<Rightarrow>
          (\<lparr>status = 200, payload = Message ''Product deleted successfully''\<rparr>,
           st\<lparr>products := c\<rparr>))"

section \<open>The application\<close>

datatype httpMethod = GET | POST | PUT | DELETE | OtherMethod

text \<open>
  A request: its method, the segments of its path (as Express matches them: lower
  case, without empty segments), the authorization header and the parsed body.
  \<^verbatim>\<open>HEAD\<close> and \<^verbatim>\<open>OPTIONS\<close>, which Express answers on its own account, are among
  the other methods and not modelled further.
\<close>

record request =
  reqMethod :: httpMethod
  reqPath :: "string list"
  authorization :: "authHeader option"
  reqBody :: body

text \<open>A router answers a request it has a route for; otherwise the request falls through.\<close>

definition authRoutes :: "env \<Rightarrow> request \<Rightarrow> string list \<Rightarrow> state \<Rightarrow> (response \<times> state) option"
  where
  "authRoutes e req rest st =
     (if reqMethod req = POST \<and> rest = [''account''] then Some (createAccount e (reqBody req) st)
      else if reqMethod req = POST \<and> rest = [''token''] then Some (issueToken e (reqBody req) st)
      else None)"

definition productRoutes ::
  "env \<Rightarrow> request \<Rightarrow> string list \<Rightarrow> state \<Rightarrow> (response \<times> state) option" where
  "productRoutes e req rest st =
     (case rest of
        [] \<Rightarrow>
          (if reqMethod req = POST then Some (createProduct e (reqBody req) st)
           else if reqMethod req = GET then Some (listProducts st)
           else None)
      | [ident] \<Rightarrow>
          (if reqMethod req = GET then Some (getProduct ident st)
           else if reqMethod req = PUT then Some (updateProduct e ident (reqBody req) st)
           else if reqMethod req = DELETE then Some (deleteProduct ident st)
           else None)
      | _ \<Rightarrow> None)"

definition notFound :: "state \<Rightarrow> response \<times> state" where
  "notFound st = (\<lparr>status = 404, payload = NoRoute\<rparr>, st)"

text \<open>
  \<^verbatim>\<open>app.js\<close>: \<^verbatim>\<open>app.use('/auth', authRoutes)\<close>,
  \<^verbatim>\<open>app.use('/products', authenticate, productRoutes)\<close> and
  \<^verbatim>\<open>app.use('/api-docs', ...)\<close>; a request that no route answers gets Express's 404.
\<close>

definition app :: "env \<Rightarrow> request \<Rightarrow> state \<Rightarrow> response \<times> state" where
  "app e req st =
     (case reqPath req of
        [] \<Rightarrow> notFound st
      | seg # rest \<Rightarrow>
          (if seg = ''auth'' then
             (case authRoutes e req rest st of Some r \<Rightarrow> r | None \<Rightarrow> notFound st)
           else if seg = ''products'' then
             (case authenticate e (authorization req) of
                None \<Rightarrow> (\<lparr>status = 401, payload = Unauthorized\<rparr>, st)
              | Some identity \<Rightarrow>
                  (case productRoutes e req rest st of Some r \<Rightarrow> r | None \<Rightarrow> notFound st))
           else if seg = ''api-docs'' then (\<lparr>status = 200, payload = ApiDocs\<rparr>, st)
           else notFound st))"

section \<open>Notions used in the statements\<close>

text \<open>The value a stored document has at a path, if the document exists and the path is set.\<close>

definition storedField :: "collection \<Rightarrow> objectId \<Rightarrow> string \<Rightarrow> val option" where
  "storedField c i k = (case map_of c i of None \<Rightarrow> None | Some fs \<Rightarrow> map_of fs k)"





section \<open>Sample data\<close>

text \<open>
  Concrete inputs for the examples. No example passes a string where the schema has a
  number or a date, nor a number beyond the safe integers, so the three conversions of
  the sample runtime are never consulted.
\<close>

definition sampleId :: objectId where
  "sampleId = [1, 2, 3, 4, 5, 6, 7, 8, 9, 10, 11, 12]"

definition sampleIdText :: string where
  "sampleIdText = ''0102030405060708090a0b0c''"

definition otherIdText :: string where
  "otherIdText = ''ffffffffffffffffffffffff''"

definition sampleEnv :: env where
  "sampleEnv =
     \<lparr>toNumber = (\<lambda>s. None), parseDate = (\<lambda>s. None), shortestDigits = (\<lambda>n. ([], 0)),
      now = 1000, defaultClock = (\<lambda>p. 1000), freshId = sampleId,
      secret = ''s3cret'', hashPassword = (\<lambda>p. ''hashed:'' @ p),
      comparePassword =
        (\<lambda>u pw. case pw of
                   Some (JStr p) \<Rightarrow>
                     Inr (map_of (snd u) ''password'' = Some (VStr (''hashed:'' @ p)))
                 | _ \<Rightarrow> Inl HelperRaised)\<rparr>"

definition laterEnv :: env where
  "laterEnv =
     sampleEnv\<lparr>now := 2000, defaultClock := (\<lambda>p. 2000),
               freshId := [2, 2, 3, 4, 5, 6, 7, 8, 9, 10, 11, 12]\<rparr>"

definition emptyState :: state where
  "emptyState = \<lparr>products = [], users = []\<rparr>"

definition penBody :: body where
  "penBody =
     [(''code'', JStr ''P1''), (''name'', JStr ''Pen''), (''price'', JNum 3),
      (''quantity'', JNum 10), (''inventoryStatus'', JStr ''INSTOCK'')]"

definition penFields :: fields where
  "penFields =
     [(''code'', VStr ''P1''), (''name'', VStr ''Pen''), (''price'', VNum 3),
      (''quantity'', VNum 10), (''inventoryStatus'', VStr ''INSTOCK''), (''rating'', VNum 0),
      (''createdAt'', VDate 1000), (''updatedAt'', VDate 1000)]"

definition penState :: state where
  "penState = \<lparr>products = [(sampleId, penFields)], users = []\<rparr>"


text \<open>A product body that brings its own timestamps, and the state its creation leaves.\<close>

definition datedBody :: body where
  "datedBody = penBody @ [(''createdAt'', JNum 5), (''updatedAt'', JNum 5000)]"

definition datedFields :: fields where
  "datedFields =
     [(''code'', VStr ''P1''), (''name'', VStr ''Pen''), (''price'', VNum 3),
      (''quantity'', VNum 10), (''inventoryStatus'', VStr ''INSTOCK''), (''rating'', VNum 0),
      (''createdAt'', VDate 5), (''updatedAt'', VDate 5000)]"

definition datedState :: state where
  "datedState = \<lparr>products = [(sampleId, datedFields)], users = []\<rparr>"




definition stampedBody :: body where
  "stampedBody = [(''name'', JStr ''Pencil''), (''updatedAt'', JNum 5)]"

text \<open>The four keys \<^verbatim>\<open>router.post('/account')\<close> reads from the body.\<close>

definition userFieldNames :: "string list" where
  "userFieldNames = [''username'', ''firstname'', ''email'', ''password'']"

text \<open>A registered user, with the bodies that register it and log it in.\<close>

definition aliceFields :: fields where
  "aliceFields =
     [(''username'', VStr ''HB''), (''firstname'', VStr ''hamza''), (''email'', VStr ''a@b.com''),
      (''password'', VStr ''hashed:pw123'')]"

definition aliceState :: state where
  "aliceState = \<lparr>products = [], users = [(sampleId, aliceFields)]\<rparr>"

definition registerBody :: body where
  "registerBody =
     [(''username'', JStr ''HB''), (''firstname'', JStr ''hamza''), (''email'', JStr ''a@b.com''),
      (''password'', JStr ''pw123'')]"

definition paddedBody :: body where
  "paddedBody = (''_id'', JStr ''ffffffffffffffffffffffff'') # (''role'', JStr ''admin'') # registerBody"

definition loginBody :: "string \<Rightarrow> string \<Rightarrow> body" where
  "loginBody em pw = [(''email'', JStr em), (''password'', JStr pw)]"

definition expiredToken :: jwt where
  "expiredToken =
     \<lparr>tokenId = sampleId, tokenEmail = Some (VStr ''a@b.com''), issuedAt = - 3600,
      expiresAt = 0, signedWith = ''s3cret''\<rparr>"

definition mkRequest :: "httpMethod \<Rightarrow> string list \<Rightarrow> authHeader option \<Rightarrow> body \<Rightarrow> request" where
  "mkRequest m p h b = \<lparr>reqMethod = m, reqPath = p, authorization = h, reqBody = b\<rparr>"

section \<open>Casting and validation: general facts\<close>


lemma newDocument_valid:
  assumes "newDocument e sch b = Inr d" and "map_of sch p = Some pd"
  shows "slotValid pd (initialSlot e b p pd)"
proof -
  from assms(1) have "list_all (\<lambda>x. slotValid (snd x) (initialSlot e b (fst x) (snd x))) sch"
    by (simp add: newDocument_def split: if_splits)
  moreover from assms(2) have "(p, pd) \<in> set sch" by (rule map_of_SomeD)
  ultimately show ?thesis by (auto simp: list_all_iff)
qed

lemma newDocument_invalid:
  assumes "(p, pd) \<in> set sch" and "\<not> slotValid pd (initialSlot e b p pd)"
  shows "newDocument e sch b = Inl ValidationError"
  using assms by (auto simp: newDocument_def list_all_iff)

lemma updateSlots_set:
  "set (updateSlots e sch u) =
     {(d, p, castValue e (pathType d) v) | d p v. (p, d) \<in> set sch \<and> map_of u p = Some v}"
  by (auto simp: updateSlots_def List.map_filter_def split: option.splits) force

lemma castUpdate_lookup:
  assumes "distinct (map fst sch)" and "castUpdate e sch u = Inr sets"
  shows "map_of sets p =
     (case map_of sch p of
        None \<Rightarrow> None
      | Some d \<Rightarrow> (case map_of u p of None \<Rightarrow> None | Some v \<Rightarrow> castValue e (pathType d) v))"
proof -
  let ?g = "\<lambda>t::pathDef \<times> string \<times> val option.
              case snd (snd t) of None \<Rightarrow> None | Some v \<Rightarrow> Some (fst (snd t), v)"
  from assms(2) have "sets = List.map_filter ?g (updateSlots e sch u)"
    by (simp add: castUpdate_def split: if_splits)
  moreover have "distinct (map fst s) \<Longrightarrow> map_of (List.map_filter ?g (updateSlots e s u)) p =
     (case map_of s p of
        None \<Rightarrow> None
      | Some d \<Rightarrow> (case map_of u p of None \<Rightarrow> None | Some v \<Rightarrow> castValue e (pathType d) v))"
    for s
  proof (induction s)
    case Nil
    then show ?case by (simp add: updateSlots_def List.map_filter_simps)
  next
    case (Cons a s)
    from Cons.prems have fresh: "map_of s (fst a) = None"
      by (simp add: map_of_eq_None_iff)
    have unfold: "updateSlots e (a # s) u =
        (case map_of u (fst a) of
           None \<Rightarrow> updateSlots e s u
         | Some v \<Rightarrow> (snd a, fst a, castValue e (pathType (snd a)) v) # updateSlots e s u)"
      by (simp add: updateSlots_def List.map_filter_simps split: option.splits)
    from Cons have IH: "map_of (List.map_filter ?g (updateSlots e s u)) p =
     (case map_of s p of
        None \<Rightarrow> None
      | Some d \<Rightarrow> (case map_of u p of None \<Rightarrow> None | Some v \<Rightarrow> castValue e (pathType d) v))"
      by simp
    show ?case
    proof (cases "p = fst a")
      case True
      with IH fresh unfold show ?thesis
        by (cases a) (simp add: List.map_filter_simps split: option.splits)
    next
      case False
      with IH unfold show ?thesis
        by (cases a) (simp add: List.map_filter_simps split: option.splits)
    qed
  qed
  ultimately show ?thesis using assms(1) by simp
qed

lemma castUpdate_valid:
  assumes "castUpdate e sch u = Inr sets" and "(p, d) \<in> set sch" and "map_of u p = Some v"
  shows "\<exists>x. castValue e (pathType d) v = Some x \<and> valueValid d x"
proof -
  from assms(2,3) have mem: "(d, p, castValue e (pathType d) v) \<in> set (updateSlots e sch u)"
    by (auto simp: updateSlots_set)
  from assms(1) have a: "\<not> list_ex (\<lambda>t. snd (snd t) = None) (updateSlots e sch u)"
    and b: "\<not> list_ex (\<lambda>t. case snd (snd t) of None \<Rightarrow> False | Some v \<Rightarrow> \<not> valueValid (fst t) v)
                (updateSlots e sch u)"
    by (simp_all add: castUpdate_def split: if_splits)
  from a mem obtain x where x: "castValue e (pathType d) v = Some x"
    by (fastforce simp: list_ex_iff)
  with b mem have "valueValid d x"
    by (fastforce simp: list_ex_iff)
  with x show ?thesis by simp
qed


section \<open>The inventory status enumeration\<close>















lemma schema_distinct: "distinct (map fst productSchema)"
  by (simp add: productSchema_def)



lemma castString_total: "\<exists>x. castString e v = Some x"
  by (cases v) (simp_all add: castString_def)










section \<open>The timestamps and the shape of the routes' answers\<close>

lemma schema_dates:
  "map_of productSchema ''createdAt'' = Some (path SDate False None DefaultDateNow)"
  "map_of productSchema ''updatedAt'' = Some (path SDate False None DefaultDateNow)"
  by (simp_all add: productSchema_def)

lemma dates_in_schema:
  "(''createdAt'', path SDate False None DefaultDateNow) \<in> set productSchema"
  "(''updatedAt'', path SDate False None DefaultDateNow) \<in> set productSchema"
  by (simp_all add: productSchema_def)

lemma path_sel:
  "pathType (path t r en d) = t" "isRequired (path t r en d) = r"
  "enumValues (path t r en d) = en" "defaultValue (path t r en d) = d"
  by (simp_all add: path_def)

lemma dateOfNumber_Some: "dateOfNumber n = Some x \<Longrightarrow> x = VDate n"
  by (simp add: dateOfNumber_def split: if_splits)

lemma updateProduct_cases:
  obtains
    (failed) f where "updateProduct e ident b st = (\<lparr>status = 400, payload = Thrown f\<rparr>, st)"
  | (missing) "updateProduct e ident b st =
                 (\<lparr>status = 404, payload = ErrorMessage ''Product not found''\<rparr>, st)"
  | (updated) i fs sets where
      "castObjectId ident = Some i" and "map_of (products st) i = Some fs" and
      "castUpdate e productSchema (AList.update ''updatedAt'' (JNum (now e)) b) = Inr sets" and
      "updateProduct e ident b st =
         (\<lparr>status = 200, payload = Doc (i, AList.merge fs sets)\<rparr>,
          st\<lparr>products := AList.update i (AList.merge fs sets) (products st)\<rparr>)"
proof (cases "findByIdAndUpdate e productSchema ident
                (AList.update ''updatedAt'' (JNum (now e)) b) (products st)")
  case (Inl f)
  then have "updateProduct e ident b st = (\<lparr>status = 400, payload = Thrown f\<rparr>, st)"
    by (simp add: updateProduct_def)
  then show ?thesis by (rule failed)
next
  case (Inr r)
  show ?thesis
  proof (cases "fst r")
    case None
    with Inr have "updateProduct e ident b st =
                 (\<lparr>status = 404, payload = ErrorMessage ''Product not found''\<rparr>, st)"
      by (cases r) (simp add: updateProduct_def)
    then show ?thesis by (rule missing)
  next
    case (Some d)
    with Inr obtain sets i fs where
      c: "castUpdate e productSchema (AList.update ''updatedAt'' (JNum (now e)) b) = Inr sets"
      and i: "castObjectId ident = Some i"
      and fs: "map_of (products st) i = Some fs"
      and r: "r = (Some (i, AList.merge fs sets),
                   AList.update i (AList.merge fs sets) (products st))"
      by (cases r)
         (auto simp: findByIdAndUpdate_def split: sum.splits option.splits if_splits)
    from Inr r have "updateProduct e ident b st =
         (\<lparr>status = 200, payload = Doc (i, AList.merge fs sets)\<rparr>,
          st\<lparr>products := AList.update i (AList.merge fs sets) (products st)\<rparr>)"
      by (simp add: updateProduct_def)
    with i fs c show ?thesis by (rule updated)
  qed
qed

lemma update_stamps_now:
  assumes "castUpdate e productSchema (AList.update ''updatedAt'' (JNum (now e)) b) = Inr sets"
  shows "map_of sets ''updatedAt'' = Some (VDate (now e))"
proof -
  let ?u = "AList.update ''updatedAt'' (JNum (now e)) b"
  have u: "map_of ?u ''updatedAt'' = Some (JNum (now e))" by (simp add: update_conv')
  from castUpdate_valid[OF assms dates_in_schema(2) u]
  obtain x where "castDate e (JNum (now e)) = Some x" by (auto simp: path_sel)
  then have x: "dateOfNumber (now e) = Some x" by (simp add: castDate_def)
  from castUpdate_lookup[OF schema_distinct assms, of "''updatedAt''"] u x
  have "map_of sets ''updatedAt'' = Some x"
    by (simp add: schema_dates path_sel castDate_def)
  with dateOfNumber_Some[OF x] show ?thesis by simp
qed


lemma merge_lookup: "map_of (AList.merge fs sets) k =
    (case map_of sets k of None \<Rightarrow> map_of fs k | Some x \<Rightarrow> Some x)"
  by (simp add: merge_conv' map_add_def)

lemma castUpdate_stamp_only:
  "dateOfNumber n = Some x \<Longrightarrow>
   castUpdate e productSchema [(''updatedAt'', JNum n)] = Inr [(''updatedAt'', x)]"
  by (simp add: castUpdate_def updateSlots_def productSchema_def path_def
        List.map_filter_simps rejectedOperator_def isOperatorKey_def updateOperators_def
        castDate_def valueValid_def enumOk_def)




section \<open>An update depends on the body only through its keys and values\<close>

lemma updateSlots_cong: "map_of u = map_of u' \<Longrightarrow> updateSlots e sch u = updateSlots e sch u'"
  by (simp add: updateSlots_def)

lemma operator_keys_iff:
  "list_ex (\<lambda>kv. rejectedOperator w (fst kv)) u \<longleftrightarrow> (\<exists>k \<in> fst ` set u. rejectedOperator w k)"
  by (auto simp: list_ex_iff)

lemma rejectedOperator_cong: "map_of u = map_of u' \<Longrightarrow> rejectedOperator u = rejectedOperator u'"
  by (rule ext) (simp add: rejectedOperator_def)

lemma findByIdAndUpdate_cong:
  assumes "map_of u = map_of u'" and "fst ` set u = fst ` set u'"
  shows "findByIdAndUpdate e sch ident u c = findByIdAndUpdate e sch ident u' c"
proof -
  have "castUpdate e sch u = castUpdate e sch u'"
    using assms
    by (simp add: castUpdate_def operator_keys_iff updateSlots_cong[OF assms(1)]
          rejectedOperator_cong[OF assms(1)])
  moreover have "updateId e u = updateId e u'" using assms(1) by (simp add: updateId_def)
  ultimately show ?thesis
    by (simp add: findByIdAndUpdate_def cong: sum.case_cong option.case_cong)
qed

lemma overwrite_drops_old:
  "findByIdAndUpdate e sch ident (AList.update k w b) c =
   findByIdAndUpdate e sch ident (AList.update k w (AList.delete k b)) c"
proof (rule findByIdAndUpdate_cong)
  show "map_of (AList.update k w b) = map_of (AList.update k w (AList.delete k b))"
    by (simp add: update_conv' delete_conv')
  show "fst ` set (AList.update k w b) = fst ` set (AList.update k w (AList.delete k b))"
  proof -
    have "fst ` set (AList.delete k b) = fst ` set b - {k}"
      by (induction b) auto
    then show ?thesis by (auto simp: dom_update)
  qed
qed

section \<open>Required paths\<close>

lemma required_in_schema:
  "(''code'', path SString True None NoDefault) \<in> set productSchema"
  "(''name'', path SString True None NoDefault) \<in> set productSchema"
  "(''price'', path SNumber True None NoDefault) \<in> set productSchema"
  "(''quantity'', path SNumber True None NoDefault) \<in> set productSchema"
  "(''inventoryStatus'', path SString True (Some inventoryStatuses) NoDefault)
     \<in> set productSchema"
  by (simp_all add: productSchema_def)

lemma unset_required_invalid:
  assumes "(p, path t True en NoDefault) \<in> set productSchema" and "map_of b p = None"
  shows "createProduct e b st = (\<lparr>status = 400, payload = Thrown ValidationError\<rparr>, st)"
proof -
  from assms(2)
  have "\<not> slotValid (path t True en NoDefault) (initialSlot e b p (path t True en NoDefault))"
    by (simp add: initialSlot_def slotValid_def path_sel)
  from newDocument_invalid[OF assms(1) this] show ?thesis
    by (simp add: createProduct_def saveNew_def)
qed

lemma create_requires_schema_fields:
  assumes "p \<in> {''code'', ''name'', ''price'', ''quantity'', ''inventoryStatus''}"
    and "map_of b p = None"
  shows "createProduct e b st = (\<lparr>status = 400, payload = Thrown ValidationError\<rparr>, st)"
proof -
  from assms(1) consider "p = ''code''" | "p = ''name''" | "p = ''price''" | "p = ''quantity''"
    | "p = ''inventoryStatus''"
    by blast
  then show ?thesis
  proof cases
    case 1
    with assms(2) show ?thesis by (simp add: unset_required_invalid[OF required_in_schema(1)])
  next
    case 2
    with assms(2) show ?thesis by (simp add: unset_required_invalid[OF required_in_schema(2)])
  next
    case 3
    with assms(2) show ?thesis by (simp add: unset_required_invalid[OF required_in_schema(3)])
  next
    case 4
    with assms(2) show ?thesis by (simp add: unset_required_invalid[OF required_in_schema(4)])
  next
    case 5
    with assms(2) show ?thesis by (simp add: unset_required_invalid[OF required_in_schema(5)])
  qed
qed

section \<open>The sample data, evaluated\<close>

lemma sample_cast: "castObjectId sampleIdText = Some sampleId"
  by (simp add: castObjectId_def sampleIdText_def sampleId_def hexDigit_def)

lemma other_cast: "castObjectId otherIdText = Some [255, 255, 255, 255, 255, 255, 255, 255, 255, 255, 255, 255]"
  by (simp add: castObjectId_def otherIdText_def hexDigit_def)


lemmas run_defs =
  createProduct_def saveNew_def newDocument_def productSchema_def path_def initialSlot_def
  slotValid_def valueValid_def requiredOk_def enumOk_def inventoryStatuses_def castString_def
  castNumber_def castDate_def dateOfNumber_def newId_def heldFields_def insertDocument_def
  List.map_filter_simps updateProduct_def findByIdAndUpdate_def castUpdate_def updateSlots_def
  updateId_def keepsId_def rejectedOperator_def isOperatorKey_def updateOperators_def
  getProduct_def findById_def deleteProduct_def findByIdAndDelete_def storedField_def
  AList.merge_def scalarText_def



section \<open>Accounts and tokens\<close>



lemma pick_lookup: "map_of (pick ks b) k = (if k \<in> set ks then map_of b k else None)"
proof (induction ks)
  case Nil
  then show ?case by (simp add: pick_def List.map_filter_simps)
next
  case (Cons a ks)
  have "pick (a # ks) b =
          (case map_of b a of None \<Rightarrow> pick ks b | Some v \<Rightarrow> (a, v) # pick ks b)"
    by (simp add: pick_def List.map_filter_simps split: option.splits)
  with Cons show ?case by (auto split: option.splits)
qed

lemma pick_cong:
  assumes "\<forall>k \<in> set ks. map_of b k = map_of b' k"
  shows "pick ks b = pick ks b'"
proof -
  have "List.map_filter (\<lambda>k. map_option (Pair k) (map_of b k)) ks =
        List.map_filter (\<lambda>k. map_option (Pair k) (map_of b' k)) ks"
    using assms by (induction ks) (auto simp: List.map_filter_simps split: option.splits)
  then show ?thesis by (simp add: pick_def)
qed

lemma user_schema_facts:
  "distinct (map fst userSchema)"
  "map_of userSchema ''username'' = Some (path SString True None NoDefault)"
  "map_of userSchema ''firstname'' = Some (path SString True None NoDefault)"
  "map_of userSchema ''email'' = Some (path SString True None NoDefault)"
  "map_of userSchema ''password'' = Some (path SString True None NoDefault)"
  by (simp_all add: userSchema_def)

lemma required_string_held:
  assumes "slotValid (path SString True None NoDefault)
             (initialSlot e b k (path SString True None NoDefault))"
  shows "\<exists>v p. map_of b k = Some v \<and> castString e v = Some (VStr p) \<and>
              initialSlot e b k (path SString True None NoDefault) = Holds (VStr p)"
proof (cases "map_of b k")
  case None
  with assms show ?thesis by (simp add: initialSlot_def slotValid_def path_sel)
next
  case (Some v)
  obtain x where x: "castString e v = Some x" using castString_total by blast
  with Some have slot: "initialSlot e b k (path SString True None NoDefault) = Holds x"
    by (simp add: initialSlot_def path_sel)
  with assms have "x \<noteq> VNull"
    by (simp add: slotValid_def valueValid_def path_sel requiredOk_def)
  with x obtain p where "x = VStr p"
    by (cases v) (auto simp: castString_def)
  with Some x slot show ?thesis by simp
qed

text \<open>The document a successful construction of a user holds, field by field.\<close>

lemma new_user_fields:
  assumes "newDocument e userSchema b = Inr d"
  shows "\<exists>vu su vf sf ve se vp sp.
           map_of b ''username'' = Some vu \<and> castString e vu = Some (VStr su) \<and>
           map_of b ''firstname'' = Some vf \<and> castString e vf = Some (VStr sf) \<and>
           map_of b ''email'' = Some ve \<and> castString e ve = Some (VStr se) \<and>
           map_of b ''password'' = Some vp \<and> castString e vp = Some (VStr sp) \<and>
           snd d = [(''username'', VStr su), (''firstname'', VStr sf), (''email'', VStr se),
                    (''password'', VStr sp)]"
proof -
  from required_string_held[OF newDocument_valid[OF assms user_schema_facts(2)]]
  obtain vu su where u: "map_of b ''username'' = Some vu" "castString e vu = Some (VStr su)"
    "initialSlot e b ''username'' (path SString True None NoDefault) = Holds (VStr su)"
    by auto
  from required_string_held[OF newDocument_valid[OF assms user_schema_facts(3)]]
  obtain vf sf where f: "map_of b ''firstname'' = Some vf" "castString e vf = Some (VStr sf)"
    "initialSlot e b ''firstname'' (path SString True None NoDefault) = Holds (VStr sf)"
    by auto
  from required_string_held[OF newDocument_valid[OF assms user_schema_facts(4)]]
  obtain ve se where m: "map_of b ''email'' = Some ve" "castString e ve = Some (VStr se)"
    "initialSlot e b ''email'' (path SString True None NoDefault) = Holds (VStr se)"
    by auto
  from required_string_held[OF newDocument_valid[OF assms user_schema_facts(5)]]
  obtain vp sp where p: "map_of b ''password'' = Some vp" "castString e vp = Some (VStr sp)"
    "initialSlot e b ''password'' (path SString True None NoDefault) = Holds (VStr sp)"
    by auto
  from assms have "snd d = heldFields e userSchema b"
    by (auto simp: newDocument_def split: if_splits sum.splits)
  with u(3) f(3) m(3) p(3)
  have "snd d = [(''username'', VStr su), (''firstname'', VStr sf), (''email'', VStr se),
                 (''password'', VStr sp)]"
    by (simp add: heldFields_def userSchema_def List.map_filter_simps)
  with u(1,2) f(1,2) m(1,2) p(1,2) show ?thesis by simp
qed

section \<open>The sample users, evaluated\<close>

lemma mkRequest_sel:
  "reqMethod (mkRequest m p h b) = m" "reqPath (mkRequest m p h b) = p"
  "authorization (mkRequest m p h b) = h" "reqBody (mkRequest m p h b) = b"
  by (simp_all add: mkRequest_def)



lemma alice_registered:
  "createAccount sampleEnv registerBody emptyState =
     (\<lparr>status = 201, payload = Account ''Account created successfully'' (sampleId, aliceFields)\<rparr>,
      aliceState)"
  by (simp add: createAccount_def saveUser_def pick_def newDocument_def userSchema_def path_def
        initialSlot_def slotValid_def valueValid_def requiredOk_def enumOk_def castString_def
        newId_def heldFields_def insertDocument_def List.map_filter_simps hashStored_def
        emailTaken_def userJSON_def sampleEnv_def registerBody_def emptyState_def
        aliceFields_def aliceState_def)

section \<open>The claims\<close>

subsection \<open>C1: the product routes are behind the token check\<close>

text \<open>
  Claim C1. A request whose path starts with \<^verbatim>\<open>/products\<close> and whose bearer token
  is missing (no authorization header, or a header that is no bearer token), invalid
  (not signed with the service's secret) or expired is answered with 401 by the
  middleware, whatever its method and the rest of its path, and the state is untouched:
  no product route runs. \<^verbatim>\<open>POST /auth/account\<close> and \<^verbatim>\<open>POST /auth/token\<close> reach
  their handlers whatever the authorization header is, in particular without one.
\<close>

theorem product_routes_need_token:
  "(reqPath req = ''products'' # rest \<and>
    (authorization req = None \<or>
     authorization req = Some (OtherHeader s) \<or>
     authorization req = Some (Bearer (NotAToken s)) \<or>
     (authorization req = Some (Bearer (Signed t)) \<and>
      (signedWith t \<noteq> secret e \<or> expiresAt t \<le> now e div 1000))) \<longrightarrow>
      app e req st = (\<lparr>status = 401, payload = Unauthorized\<rparr>, st)) \<and>
   (reqMethod req = POST \<and> reqPath req = [''auth'', ''account''] \<longrightarrow>
      app e req st = createAccount e (reqBody req) st) \<and>
   (reqMethod req = POST \<and> reqPath req = [''auth'', ''token''] \<longrightarrow>
      app e req st = issueToken e (reqBody req) st)"
proof (intro conjI impI)
  assume a: "reqPath req = ''products'' # rest \<and>
    (authorization req = None \<or>
     authorization req = Some (OtherHeader s) \<or>
     authorization req = Some (Bearer (NotAToken s)) \<or>
     (authorization req = Some (Bearer (Signed t)) \<and>
      (signedWith t \<noteq> secret e \<or> expiresAt t \<le> now e div 1000)))"
  then have "authenticate e (authorization req) = None"
    by (auto simp: authenticate_def)
  with a show "app e req st = (\<lparr>status = 401, payload = Unauthorized\<rparr>, st)"
    by (simp add: app_def)
next
  assume "reqMethod req = POST \<and> reqPath req = [''auth'', ''account'']"
  then show "app e req st = createAccount e (reqBody req) st"
    by (simp add: app_def authRoutes_def)
next
  assume "reqMethod req = POST \<and> reqPath req = [''auth'', ''token'']"
  then show "app e req st = issueToken e (reqBody req) st"
    by (simp add: app_def authRoutes_def)
qed

text \<open>
  Claim C1 at concrete requests: a listing without a header and a deletion with an
  expired token are both turned away with 401; a registration and a login without any
  header reach their handlers.
\<close>

theorem product_routes_need_token_witness:
  "app sampleEnv (mkRequest GET [''products''] None []) penState =
     (\<lparr>status = 401, payload = Unauthorized\<rparr>, penState) \<and>
   app sampleEnv (mkRequest DELETE [''products'', sampleIdText]
       (Some (Bearer (Signed expiredToken))) []) penState =
     (\<lparr>status = 401, payload = Unauthorized\<rparr>, penState) \<and>
   app sampleEnv (mkRequest POST [''auth'', ''account''] None registerBody) emptyState =
     createAccount sampleEnv registerBody emptyState \<and>
   app sampleEnv (mkRequest POST [''auth'', ''token''] None (loginBody ''a@b.com'' ''pw123''))
       aliceState =
     issueToken sampleEnv (loginBody ''a@b.com'' ''pw123'') aliceState"
proof -
  have a: "expiresAt expiredToken \<le> now sampleEnv div 1000"
    by (simp add: expiredToken_def sampleEnv_def)
  from a
    product_routes_need_token[of "mkRequest GET [''products''] None []" "[]" _ _ sampleEnv penState]
    product_routes_need_token[of "mkRequest DELETE [''products'', sampleIdText]
       (Some (Bearer (Signed expiredToken))) []" "[sampleIdText]" _ expiredToken sampleEnv
       penState]
    product_routes_need_token[of "mkRequest POST [''auth'', ''account''] None registerBody"
       _ _ _ sampleEnv emptyState]
    product_routes_need_token[of
       "mkRequest POST [''auth'', ''token''] None (loginBody ''a@b.com'' ''pw123'')"
       _ _ _ sampleEnv aliceState]
  show ?thesis by (simp add: mkRequest_sel)
qed

subsection \<open>C2: the inventory status is always one of the three values\<close>



subsection \<open>C3: which fields a create requires\<close>

text \<open>
  Claim C3 says a create without \<open>category\<close> fails, as the route's API annotation
  lists \<open>category\<close> among the required fields. The schema declares
  \<^verbatim>\<open>category: String\<close> without \<^verbatim>\<open>required\<close>: the body below has every
  required field of the schema and no \<open>category\<close>, and the create answers 201 and
  stores the product. (The five paths the schema does mark as required are enforced:
  \<open>create_requires_schema_fields\<close>.)
\<close>

theorem create_without_category_succeeds:
  "map_of penBody ''category'' = None \<and>
   createProduct sampleEnv penBody emptyState =
     (\<lparr>status = 201, payload = Doc (sampleId, penFields)\<rparr>, penState)"
  by (simp add: run_defs sampleEnv_def penBody_def emptyState_def penFields_def penState_def)

subsection \<open>C4: what keeps \<open>createdAt\<close>\<close>




subsection \<open>C5: an update stamps \<open>updatedAt\<close> with the server's time\<close>

text \<open>
  Claim C5 says \<open>updatedAt\<close> never decreases under an update. A create accepts an
  \<open>updatedAt\<close> from the client, so the stored value can lie ahead of the server's
  time: here a product is created at time 1000 with \<^verbatim>\<open>updatedAt: 5000\<close> and updated
  with an empty body at the later time 2000; the update answers 200 and \<open>updatedAt\<close>
  drops from 5000 to 2000.
\<close>

theorem update_sets_updatedAt_counterexample:
  "createProduct sampleEnv datedBody emptyState =
     (\<lparr>status = 201, payload = Doc (sampleId, datedFields)\<rparr>, datedState) \<and>
   storedField (products datedState) sampleId ''updatedAt'' = Some (VDate 5000) \<and>
   status (fst (updateProduct laterEnv sampleIdText [] datedState)) = 200 \<and>
   storedField (products (snd (updateProduct laterEnv sampleIdText [] datedState)))
     sampleId ''updatedAt'' = Some (VDate 2000) \<and>
   now sampleEnv < now laterEnv"
  by (simp add: run_defs sample_cast sampleEnv_def laterEnv_def penBody_def datedBody_def
        emptyState_def datedFields_def datedState_def)

text \<open>
  Claim C5 as amended. Every update answered with 200 found the product and stores
  the server's current time as its \<open>updatedAt\<close>; so \<open>updatedAt\<close> does not
  decrease whenever the stored value was not later than the server's time. An update
  with an empty body of an existing product is answered with 200 (the server's time
  being a valid date).
\<close>

theorem update_sets_updatedAt:
  "(updateProduct e ident b st = (r, st') \<and> status r = 200 \<longrightarrow>
      (\<exists>i fs fs'. castObjectId ident = Some i \<and> map_of (products st) i = Some fs \<and>
          payload r = Doc (i, fs') \<and> map_of (products st') i = Some fs' \<and>
          map_of fs' ''updatedAt'' = Some (VDate (now e)) \<and>
          (\<forall>t. map_of fs ''updatedAt'' = Some (VDate t) \<and> t \<le> now e \<longrightarrow>
               (\<exists>t'. map_of fs' ''updatedAt'' = Some (VDate t') \<and> t \<le> t')))) \<and>
   (castObjectId ident = Some i \<and> map_of (products st) i = Some fs \<and>
    dateOfNumber (now e) \<noteq> None \<longrightarrow>
      status (fst (updateProduct e ident [] st)) = 200)"
proof (intro conjI impI)
  assume a: "updateProduct e ident b st = (r, st') \<and> status r = 200"
  show "\<exists>i fs fs'. castObjectId ident = Some i \<and> map_of (products st) i = Some fs \<and>
          payload r = Doc (i, fs') \<and> map_of (products st') i = Some fs' \<and>
          map_of fs' ''updatedAt'' = Some (VDate (now e)) \<and>
          (\<forall>t. map_of fs ''updatedAt'' = Some (VDate t) \<and> t \<le> now e \<longrightarrow>
               (\<exists>t'. map_of fs' ''updatedAt'' = Some (VDate t') \<and> t \<le> t'))"
  proof (cases rule: updateProduct_cases[of e ident b st])
    case (failed f)
    with a show ?thesis by auto
  next
    case missing
    with a show ?thesis by auto
  next
    case (updated j gs sets)
    from update_stamps_now[OF updated(3)]
    have stamp: "map_of (AList.merge gs sets) ''updatedAt'' = Some (VDate (now e))"
      by (simp add: merge_lookup)
    from updated(4) a
    have r: "payload r = Doc (j, AList.merge gs sets)"
      and st': "map_of (products st') j = Some (AList.merge gs sets)"
      by (auto simp: update_conv')
    have "castObjectId ident = Some j \<and> map_of (products st) j = Some gs \<and>
          payload r = Doc (j, AList.merge gs sets) \<and>
          map_of (products st') j = Some (AList.merge gs sets) \<and>
          map_of (AList.merge gs sets) ''updatedAt'' = Some (VDate (now e)) \<and>
          (\<forall>t. map_of gs ''updatedAt'' = Some (VDate t) \<and> t \<le> now e \<longrightarrow>
               (\<exists>t'. map_of (AList.merge gs sets) ''updatedAt'' = Some (VDate t') \<and> t \<le> t'))"
      using updated(1,2) r st' stamp by simp
    then show ?thesis
      apply (rule_tac x = j in exI)
      apply (rule_tac x = gs in exI)
      apply (rule_tac x = "AList.merge gs sets" in exI)
      apply assumption
      done
  qed
next
  assume a: "castObjectId ident = Some i \<and> map_of (products st) i = Some fs \<and>
    dateOfNumber (now e) \<noteq> None"
  then obtain x where x: "dateOfNumber (now e) = Some x" by auto
  from a castUpdate_stamp_only[OF x, of e]
  show "status (fst (updateProduct e ident [] st)) = 200"
    by (simp add: updateProduct_def findByIdAndUpdate_def updateId_def keepsId_def)
qed

text \<open>
  Claim C5 as amended, at the stored pen: an empty update at time 2000 is answered
  with 200 and stores 2000.
\<close>

theorem update_sets_updatedAt_witness:
  "(\<exists>i fs fs'. castObjectId sampleIdText = Some i \<and> map_of (products penState) i = Some fs \<and>
       payload (fst (updateProduct laterEnv sampleIdText [] penState)) = Doc (i, fs') \<and>
       map_of (products (snd (updateProduct laterEnv sampleIdText [] penState))) i = Some fs' \<and>
       map_of fs' ''updatedAt'' = Some (VDate (now laterEnv)) \<and>
       (\<forall>t. map_of fs ''updatedAt'' = Some (VDate t) \<and> t \<le> now laterEnv \<longrightarrow>
            (\<exists>t'. map_of fs' ''updatedAt'' = Some (VDate t') \<and> t \<le> t'))) \<and>
   status (fst (updateProduct laterEnv sampleIdText [] penState)) = 200"
proof -
  have a: "map_of (products penState) sampleId = Some penFields"
    by (simp add: penState_def)
  have d: "dateOfNumber (now laterEnv) \<noteq> None"
    by (simp add: dateOfNumber_def laterEnv_def sampleEnv_def)
  from sample_cast a d
    update_sets_updatedAt[of laterEnv sampleIdText "[]" penState
      "fst (updateProduct laterEnv sampleIdText [] penState)"
      "snd (updateProduct laterEnv sampleIdText [] penState)" sampleId penFields]
  show ?thesis by simp
qed

subsection \<open>C6: issuing a token\<close>



subsection \<open>C7: products that are not there\<close>

text \<open>
  Claim C7 says every id that matches no product gets 404 from the read and from the
  delete. The id \<^verbatim>\<open>abc\<close> matches no product of the empty store, but it is no
  ObjectId: the lookup raises, and both routes answer their exceptions with 500.
\<close>

theorem missing_product_not_found_counterexample:
  "products emptyState = [] \<and>
   getProduct ''abc'' emptyState = (\<lparr>status = 500, payload = Thrown CastError\<rparr>, emptyState) \<and>
   deleteProduct ''abc'' emptyState =
     (\<lparr>status = 500, payload = Thrown CastError\<rparr>, emptyState)"
  by (simp add: run_defs castObjectId_def emptyState_def)

text \<open>
  Claim C7 as amended. An id is an ObjectId when it is a string of 24 hexadecimal
  digits, and only then. For an id that is an ObjectId and matches no product, the
  read and the delete answer 404 and change nothing; for any other id, a string of 12
  characters among them, both answer 500 and change nothing; and after a delete
  answered with 200, the read of the same id answers 404.
\<close>

theorem missing_product_not_found:
  "(castObjectId ident = Some i \<and> map_of (products st) i = None \<longrightarrow>
      getProduct ident st =
        (\<lparr>status = 404, payload = ErrorMessage ''Product not found''\<rparr>, st) \<and>
      deleteProduct ident st =
        (\<lparr>status = 404, payload = ErrorMessage ''Product not found''\<rparr>, st)) \<and>
   (castObjectId ident = None \<longrightarrow>
      getProduct ident st = (\<lparr>status = 500, payload = Thrown CastError\<rparr>, st) \<and>
      deleteProduct ident st = (\<lparr>status = 500, payload = Thrown CastError\<rparr>, st)) \<and>
   (status (fst (deleteProduct ident st)) = 200 \<longrightarrow>
      getProduct ident (snd (deleteProduct ident st)) =
        (\<lparr>status = 404, payload = ErrorMessage ''Product not found''\<rparr>,
         snd (deleteProduct ident st)))"
proof (intro conjI impI)
  assume "castObjectId ident = Some i \<and> map_of (products st) i = None"
  then show "getProduct ident st =
        (\<lparr>status = 404, payload = ErrorMessage ''Product not found''\<rparr>, st)"
    and "deleteProduct ident st =
        (\<lparr>status = 404, payload = ErrorMessage ''Product not found''\<rparr>, st)"
    by (simp_all add: getProduct_def findById_def deleteProduct_def findByIdAndDelete_def)
next
  assume "castObjectId ident = None"
  then show "getProduct ident st = (\<lparr>status = 500, payload = Thrown CastError\<rparr>, st)"
    and "deleteProduct ident st = (\<lparr>status = 500, payload = Thrown CastError\<rparr>, st)"
    by (simp_all add: getProduct_def findById_def deleteProduct_def findByIdAndDelete_def)
next
  assume ok: "status (fst (deleteProduct ident st)) = 200"
  then obtain i fs where i: "castObjectId ident = Some i" and "map_of (products st) i = Some fs"
    by (auto simp: deleteProduct_def findByIdAndDelete_def split: option.splits)
  then have "snd (deleteProduct ident st) = st\<lparr>products := AList.delete i (products st)\<rparr>"
    by (simp add: deleteProduct_def findByIdAndDelete_def)
  with i show "getProduct ident (snd (deleteProduct ident st)) =
        (\<lparr>status = 404, payload = ErrorMessage ''Product not found''\<rparr>,
         snd (deleteProduct ident st))"
    by (simp add: getProduct_def findById_def delete_conv')
qed

text \<open>
  Claim C7 as amended, at the store of one pen: an unused ObjectId, the id
  \<^verbatim>\<open>abc\<close>, the id \<^verbatim>\<open>abcdefabcdef\<close> of 12 characters, and the pen's id after its
  deletion.
\<close>

theorem missing_product_not_found_witness:
  "getProduct otherIdText penState =
     (\<lparr>status = 404, payload = ErrorMessage ''Product not found''\<rparr>, penState) \<and>
   deleteProduct otherIdText penState =
     (\<lparr>status = 404, payload = ErrorMessage ''Product not found''\<rparr>, penState) \<and>
   getProduct ''abc'' penState = (\<lparr>status = 500, payload = Thrown CastError\<rparr>, penState) \<and>
   deleteProduct ''abc'' penState = (\<lparr>status = 500, payload = Thrown CastError\<rparr>, penState) \<and>
   getProduct ''abcdefabcdef'' penState =
     (\<lparr>status = 500, payload = Thrown CastError\<rparr>, penState) \<and>
   deleteProduct ''abcdefabcdef'' penState =
     (\<lparr>status = 500, payload = Thrown CastError\<rparr>, penState) \<and>
   status (fst (deleteProduct sampleIdText penState)) = 200 \<and>
   getProduct sampleIdText (snd (deleteProduct sampleIdText penState)) =
     (\<lparr>status = 404, payload = ErrorMessage ''Product not found''\<rparr>,
      snd (deleteProduct sampleIdText penState))"
proof -
  have a: "map_of (products penState)
             [255, 255, 255, 255, 255, 255, 255, 255, 255, 255, 255, 255] = None"
    by (simp add: penState_def sampleId_def)
  have b: "castObjectId ''abc'' = None" "castObjectId ''abcdefabcdef'' = None"
    by (simp_all add: castObjectId_def)
  have c: "status (fst (deleteProduct sampleIdText penState)) = 200"
    by (simp add: deleteProduct_def findByIdAndDelete_def sample_cast penState_def)
  from other_cast a b c
    missing_product_not_found[of otherIdText _ penState]
    missing_product_not_found[of "''abc''" _ penState]
    missing_product_not_found[of "''abcdefabcdef''" _ penState]
    missing_product_not_found[of sampleIdText _ penState]
  show ?thesis by simp
qed

subsection \<open>C8: what a create stamps\<close>




subsection \<open>C9: the client's \<open>updatedAt\<close> is ignored\<close>

text \<open>
  Claim C9. The update route overwrites the body's \<open>updatedAt\<close> before anything
  reads it: an update answers, and leaves the state, exactly as the same update
  without the \<open>updatedAt\<close> field would; and when the body has an \<open>updatedAt\<close>
  and the update is answered with 200, the stored \<open>updatedAt\<close> is the server's
  current time.
\<close>

theorem client_updatedAt_ignored:
  "updateProduct e ident b st = updateProduct e ident (AList.delete ''updatedAt'' b) st \<and>
   (map_of b ''updatedAt'' = Some v \<and> updateProduct e ident b st = (r, st') \<and> status r = 200 \<longrightarrow>
      (\<exists>i fs'. castObjectId ident = Some i \<and> payload r = Doc (i, fs') \<and>
               map_of (products st') i = Some fs' \<and>
               map_of fs' ''updatedAt'' = Some (VDate (now e))))"
proof (intro conjI impI)
  show "updateProduct e ident b st = updateProduct e ident (AList.delete ''updatedAt'' b) st"
    by (simp add: updateProduct_def overwrite_drops_old[of e productSchema ident "''updatedAt''" _ b])
next
  assume a: "map_of b ''updatedAt'' = Some v \<and> updateProduct e ident b st = (r, st') \<and>
    status r = 200"
  show "\<exists>i fs'. castObjectId ident = Some i \<and> payload r = Doc (i, fs') \<and>
               map_of (products st') i = Some fs' \<and>
               map_of fs' ''updatedAt'' = Some (VDate (now e))"
  proof (cases rule: updateProduct_cases[of e ident b st])
    case (failed f)
    with a show ?thesis by auto
  next
    case missing
    with a show ?thesis by auto
  next
    case (updated j gs sets)
    from update_stamps_now[OF updated(3)]
    have "map_of (AList.merge gs sets) ''updatedAt'' = Some (VDate (now e))"
      by (simp add: merge_lookup)
    moreover from updated(4) a
    have "payload r = Doc (j, AList.merge gs sets)"
      and "map_of (products st') j = Some (AList.merge gs sets)"
      by (auto simp: update_conv')
    ultimately show ?thesis using updated(1) by auto
  qed
qed

text \<open>
  Claim C9 at the stored pen: a renaming that also sends \<^verbatim>\<open>updatedAt: 5\<close> at
  time 2000 does what the renaming alone does, and stores 2000.
\<close>

theorem client_updatedAt_ignored_witness:
  "updateProduct laterEnv sampleIdText stampedBody penState =
     updateProduct laterEnv sampleIdText [(''name'', JStr ''Pencil'')] penState \<and>
   (\<exists>i fs'. castObjectId sampleIdText = Some i \<and>
        payload (fst (updateProduct laterEnv sampleIdText stampedBody penState)) = Doc (i, fs') \<and>
        map_of (products (snd (updateProduct laterEnv sampleIdText stampedBody penState))) i =
          Some fs' \<and>
        map_of fs' ''updatedAt'' = Some (VDate (now laterEnv)))"
proof -
  have a: "map_of stampedBody ''updatedAt'' = Some (JNum 5)" by (simp add: stampedBody_def)
  have b: "AList.delete ''updatedAt'' stampedBody = [(''name'', JStr ''Pencil'')]"
    by (simp add: stampedBody_def)
  have c: "status (fst (updateProduct laterEnv sampleIdText [(''name'', JStr ''Pencil'')] penState))
            = 200"
    by (simp add: run_defs sample_cast laterEnv_def sampleEnv_def penState_def penFields_def)
  note t = client_updatedAt_ignored[of laterEnv sampleIdText stampedBody penState "JNum 5"
      "fst (updateProduct laterEnv sampleIdText stampedBody penState)"
      "snd (updateProduct laterEnv sampleIdText stampedBody penState)"]
  from t b have first: "updateProduct laterEnv sampleIdText stampedBody penState =
     updateProduct laterEnv sampleIdText [(''name'', JStr ''Pencil'')] penState"
    by simp
  from c first
  have pre: "map_of stampedBody ''updatedAt'' = Some (JNum 5) \<and>
      updateProduct laterEnv sampleIdText stampedBody penState =
        (fst (updateProduct laterEnv sampleIdText stampedBody penState),
         snd (updateProduct laterEnv sampleIdText stampedBody penState)) \<and>
      status (fst (updateProduct laterEnv sampleIdText stampedBody penState)) = 200"
    using a by simp
  from t[THEN conjunct2] pre
  have second: "\<exists>i fs'. castObjectId sampleIdText = Some i \<and>
        payload (fst (updateProduct laterEnv sampleIdText stampedBody penState)) = Doc (i, fs') \<and>
        map_of (products (snd (updateProduct laterEnv sampleIdText stampedBody penState))) i =
          Some fs' \<and>
        map_of fs' ''updatedAt'' = Some (VDate (now laterEnv))"
    by (rule mp)
  from first second show ?thesis by (rule conjI)
qed

subsection \<open>C10: what a registration reads and returns\<close>

text \<open>
  Claim C10. Two bodies that agree on \<open>username\<close>, \<open>firstname\<close>, \<open>email\<close> and
  \<open>password\<close> get the same answer and leave the same state: every other field is
  ignored. A registration answered with 201 appends one user to the store, under the
  generated id, and returns that very document: it has exactly the four fields, in
  which \<open>username\<close>, \<open>firstname\<close> and \<open>email\<close> are the supplied values as strings
  and \<open>password\<close> is the hash of the supplied password. The answer is not redacted.
\<close>

theorem account_response:
  "((\<forall>k \<in> set userFieldNames. map_of b k = map_of b' k) \<longrightarrow>
      createAccount e b st = createAccount e b' st) \<and>
   (createAccount e b st = (r, st') \<and> status r = 201 \<longrightarrow>
      (\<exists>d. payload r = Account ''Account created successfully'' d \<and>
           st' = st\<lparr>users := users st @ [d]\<rparr> \<and>
           map_of (users st') (fst d) = Some (snd d) \<and>
           fst d = freshId e \<and>
           map fst (snd d) = userFieldNames \<and>
           (\<forall>k \<in> {''username'', ''firstname'', ''email''}.
              \<exists>v s. map_of b k = Some v \<and> castString e v = Some (VStr s) \<and>
                    map_of (snd d) k = Some (VStr s)) \<and>
           (\<exists>v p. map_of b ''password'' = Some v \<and> castString e v = Some (VStr p) \<and>
                  map_of (snd d) ''password'' = Some (VStr (hashPassword e p)))))"
proof (intro conjI impI)
  assume "\<forall>k \<in> set userFieldNames. map_of b k = map_of b' k"
  then have "pick [''username'', ''firstname'', ''email'', ''password''] b =
             pick [''username'', ''firstname'', ''email'', ''password''] b'"
    unfolding userFieldNames_def by (rule pick_cong)
  then show "createAccount e b st = createAccount e b' st"
    by (simp add: createAccount_def)
next
  let ?pb = "pick [''username'', ''firstname'', ''email'', ''password''] b"
  assume a: "createAccount e b st = (r, st') \<and> status r = 201"
  show "\<exists>d. payload r = Account ''Account created successfully'' d \<and>
           st' = st\<lparr>users := users st @ [d]\<rparr> \<and>
           map_of (users st') (fst d) = Some (snd d) \<and>
           fst d = freshId e \<and>
           map fst (snd d) = userFieldNames \<and>
           (\<forall>k \<in> {''username'', ''firstname'', ''email''}.
              \<exists>v s. map_of b k = Some v \<and> castString e v = Some (VStr s) \<and>
                    map_of (snd d) k = Some (VStr s)) \<and>
           (\<exists>v p. map_of b ''password'' = Some v \<and> castString e v = Some (VStr p) \<and>
                  map_of (snd d) ''password'' = Some (VStr (hashPassword e p)))"
  proof (cases "saveUser e ?pb (users st)")
    case (Inl f)
    with a show ?thesis by (auto simp: createAccount_def)
  next
    case (Inr res)
    obtain d c where res: "res = (d, c)" by (cases res)
    with Inr a have r: "payload r = Account ''Account created successfully'' d"
      and st': "st' = st\<lparr>users := c\<rparr>"
      by (auto simp: createAccount_def userJSON_def)
    from Inr res obtain d0 where d0: "newDocument e userSchema ?pb = Inr d0"
      and d: "d = (fst d0, hashStored e (snd d0))"
      and ins: "insertDocument d (users st) = Inr c"
      by (auto simp: saveUser_def split: sum.splits if_splits)
    from ins have c: "c = users st @ [d]" and fresh: "map_of (users st) (fst d) = None"
      by (auto simp: insertDocument_def split: option.splits)
    have stored: "map_of (users st') (fst d) = Some (snd d)"
      using st' c fresh by (cases d) (simp add: map_add_def)
    from d0 have ident: "newId e ?pb = Inr (fst d0)"
      by (auto simp: newDocument_def split: if_splits sum.splits)
    have "map_of ?pb ''_id'' = None" by (simp add: pick_lookup)
    with ident d have i: "fst d = freshId e" by (simp add: newId_def)
    from new_user_fields[OF d0] obtain vu su vf sf ve se vp sp where
      u: "map_of ?pb ''username'' = Some vu" "castString e vu = Some (VStr su)" and
      f: "map_of ?pb ''firstname'' = Some vf" "castString e vf = Some (VStr sf)" and
      m: "map_of ?pb ''email'' = Some ve" "castString e ve = Some (VStr se)" and
      p: "map_of ?pb ''password'' = Some vp" "castString e vp = Some (VStr sp)" and
      flds: "snd d0 = [(''username'', VStr su), (''firstname'', VStr sf), (''email'', VStr se),
                       (''password'', VStr sp)]"
      by blast
    from flds d have sd: "snd d = [(''username'', VStr su), (''firstname'', VStr sf),
        (''email'', VStr se), (''password'', VStr (hashPassword e sp))]"
      by (simp add: hashStored_def)
    from u(1) f(1) m(1) p(1) have bu: "map_of b ''username'' = Some vu"
      and bf: "map_of b ''firstname'' = Some vf" and bm: "map_of b ''email'' = Some ve"
      and bp: "map_of b ''password'' = Some vp"
      by (simp_all add: pick_lookup)
    have keys: "map fst (snd d) = userFieldNames" by (simp add: sd userFieldNames_def)
    have three: "\<forall>k \<in> {''username'', ''firstname'', ''email''}.
              \<exists>v s. map_of b k = Some v \<and> castString e v = Some (VStr s) \<and>
                    map_of (snd d) k = Some (VStr s)"
      using bu bf bm u(2) f(2) m(2) by (simp add: sd)
    have pw: "\<exists>v p. map_of b ''password'' = Some v \<and> castString e v = Some (VStr p) \<and>
                  map_of (snd d) ''password'' = Some (VStr (hashPassword e p))"
      using bp p(2) by (simp add: sd)
    have "payload r = Account ''Account created successfully'' d \<and>
           st' = st\<lparr>users := users st @ [d]\<rparr> \<and>
           map_of (users st') (fst d) = Some (snd d) \<and>
           fst d = freshId e \<and>
           map fst (snd d) = userFieldNames \<and>
           (\<forall>k \<in> {''username'', ''firstname'', ''email''}.
              \<exists>v s. map_of b k = Some v \<and> castString e v = Some (VStr s) \<and>
                    map_of (snd d) k = Some (VStr s)) \<and>
           (\<exists>v p. map_of b ''password'' = Some v \<and> castString e v = Some (VStr p) \<and>
                  map_of (snd d) ''password'' = Some (VStr (hashPassword e p)))"
      using r st' c stored i keys three pw by simp
    then show ?thesis
      apply (rule_tac x = d in exI)
      apply assumption
      done
  qed
qed

text \<open>
  Claim C10 at a registration: a body with an \<^verbatim>\<open>_id\<close> and a \<open>role\<close> besides the
  four fields is treated as the four fields alone, and the answer carries the stored
  document with its four fields, the password hashed.
\<close>

theorem account_response_witness:
  "createAccount sampleEnv paddedBody emptyState = createAccount sampleEnv registerBody emptyState \<and>
   (\<exists>d. payload (fst (createAccount sampleEnv registerBody emptyState)) =
              Account ''Account created successfully'' d \<and>
        snd (createAccount sampleEnv registerBody emptyState) =
          emptyState\<lparr>users := users emptyState @ [d]\<rparr> \<and>
        map_of (users (snd (createAccount sampleEnv registerBody emptyState))) (fst d) =
          Some (snd d) \<and>
        fst d = freshId sampleEnv \<and>
        map fst (snd d) = userFieldNames \<and>
        (\<exists>v s. map_of registerBody ''username'' = Some v \<and>
               castString sampleEnv v = Some (VStr s) \<and>
               map_of (snd d) ''username'' = Some (VStr s)) \<and>
        (\<exists>v s. map_of registerBody ''firstname'' = Some v \<and>
               castString sampleEnv v = Some (VStr s) \<and>
               map_of (snd d) ''firstname'' = Some (VStr s)) \<and>
        (\<exists>v s. map_of registerBody ''email'' = Some v \<and>
               castString sampleEnv v = Some (VStr s) \<and>
               map_of (snd d) ''email'' = Some (VStr s)) \<and>
        (\<exists>v p. map_of registerBody ''password'' = Some v \<and>
               castString sampleEnv v = Some (VStr p) \<and>
               map_of (snd d) ''password'' = Some (VStr (hashPassword sampleEnv p))))"
proof -
  have same: "\<forall>k \<in> set userFieldNames. map_of paddedBody k = map_of registerBody k"
    by (simp add: userFieldNames_def paddedBody_def)
  have ok: "createAccount sampleEnv registerBody emptyState =
              (fst (createAccount sampleEnv registerBody emptyState),
               snd (createAccount sampleEnv registerBody emptyState)) \<and>
            status (fst (createAccount sampleEnv registerBody emptyState)) = 201"
    by (simp add: alice_registered)
  from account_response[of paddedBody registerBody sampleEnv emptyState, THEN conjunct1] same
  have first: "createAccount sampleEnv paddedBody emptyState =
               createAccount sampleEnv registerBody emptyState"
    by (rule mp)
  from account_response[of registerBody registerBody sampleEnv emptyState
      "fst (createAccount sampleEnv registerBody emptyState)"
      "snd (createAccount sampleEnv registerBody emptyState)", THEN conjunct2] ok
  have "\<exists>d. payload (fst (createAccount sampleEnv registerBody emptyState)) =
              Account ''Account created successfully'' d \<and>
        snd (createAccount sampleEnv registerBody emptyState) =
          emptyState\<lparr>users := users emptyState @ [d]\<rparr> \<and>
        map_of (users (snd (createAccount sampleEnv registerBody emptyState))) (fst d) =
          Some (snd d) \<and>
        fst d = freshId sampleEnv \<and>
        map fst (snd d) = userFieldNames \<and>
        (\<forall>k \<in> {''username'', ''firstname'', ''email''}.
           \<exists>v s. map_of registerBody k = Some v \<and> castString sampleEnv v = Some (VStr s) \<and>
                 map_of (snd d) k = Some (VStr s)) \<and>
        (\<exists>v p. map_of registerBody ''password'' = Some v \<and>
               castString sampleEnv v = Some (VStr p) \<and>
               map_of (snd d) ''password'' = Some (VStr (hashPassword sampleEnv p)))"
    by (rule mp)
  then have second: "\<exists>d. payload (fst (createAccount sampleEnv registerBody emptyState)) =
              Account ''Account created successfully'' d \<and>
        snd (createAccount sampleEnv registerBody emptyState) =
          emptyState\<lparr>users := users emptyState @ [d]\<rparr> \<and>
        map_of (users (snd (createAccount sampleEnv registerBody emptyState))) (fst d) =
          Some (snd d) \<and>
        fst d = freshId sampleEnv \<and>
        map fst (snd d) = userFieldNames \<and>
        (\<exists>v s. map_of registerBody ''username'' = Some v \<and>
               castString sampleEnv v = Some (VStr s) \<and>
               map_of (snd d) ''username'' = Some (VStr s)) \<and>
        (\<exists>v s. map_of registerBody ''firstname'' = Some v \<and>
               castString sampleEnv v = Some (VStr s) \<and>
               map_of (snd d) ''firstname'' = Some (VStr s)) \<and>
        (\<exists>v s. map_of registerBody ''email'' = Some v \<and>
               castString sampleEnv v = Some (VStr s) \<and>
               map_of (snd d) ''email'' = Some (VStr s)) \<and>
        (\<exists>v p. map_of registerBody ''password'' = Some v \<and>
               castString sampleEnv v = Some (VStr p) \<and>
               map_of (snd d) ''password'' = Some (VStr (hashPassword sampleEnv p)))"
    by simp
  from first second show ?thesis by (rule conjI)
qed

end
